theory Spec2Isabelle
  imports Complex_Main "HOL-Library.Log_Nat"
begin

section \<open>Python values used by the notebook\<close>

subsection \<open>Exceptions\<close>

text \<open>
  The exceptions that the notebook's code cells can end with. \<open>NameError\<close> and
  \<open>AssertionError\<close> come from the configuration cell, \<open>ValueError\<close> from
  \<^verbatim>\<open>list.index\<close>, \<open>KeyError\<close> from a dictionary subscript; \<open>OSError\<close> is
  what the file system raises; the AWS SDK raises \<open>ParamValidationError\<close> for a
  parameter it refuses to send and \<open>ClientError\<close> for a request the service refuses.
  \<open>IndexError\<close> is listed because, with \<open>KeyError\<close>, it is one of the two built-in
  subclasses of \<^verbatim>\<open>LookupError\<close>.
\<close>

datatype error =
    NameError
  | AssertionError
  | ValueError
  | KeyError
  | IndexError
  | OSError
  | ParamValidationError
  | ClientError

text \<open>
  \<^verbatim>\<open>isinstance(e, LookupError)\<close> in Python's built-in exception hierarchy:
  \<^verbatim>\<open>LookupError\<close> has the subclasses \<^verbatim>\<open>IndexError\<close> and \<^verbatim>\<open>KeyError\<close>;
  \<^verbatim>\<open>ValueError\<close> derives from \<^verbatim>\<open>Exception\<close> directly.
\<close>

fun is_LookupError :: "error \<Rightarrow> bool" where
  "is_LookupError KeyError = True"
| "is_LookupError IndexError = True"
| "is_LookupError _ = False"

subsection \<open>Floats\<close>

text \<open>
  A Python \<^verbatim>\<open>float\<close> is an IEEE 754 binary64 number. A finite one is modelled by
  the rational it denotes; the sign of zero is not represented (\<^verbatim>\<open>-0.0 == 0.0\<close>, and
  the notebook only adds and compares). Every arithmetic result is rounded to the nearest
  binary64 number, ties to even, and overflows to an infinity.
\<close>

datatype pyfloat = Finite rat | PosInf | NegInf | NaN

definition pow2 :: "int \<Rightarrow> rat" where
  "pow2 e = (if 0 \<le> e then 2 ^ nat e else 1 / 2 ^ nat (- e))"

definition round_half_even :: "rat \<Rightarrow> int" where
  "round_half_even x =
     (let f = \<lfloor>x\<rfloor>; r = x - of_int f
      in if r < 1 / 2 then f
         else if 1 / 2 < r then f + 1
         else if even f then f else f + 1)"

text \<open>The exponent \<open>e\<close> with \<open>2 ^ e \<le> a < 2 ^ (e + 1)\<close>, for \<open>a > 0\<close>.\<close>

definition ilog2 :: "rat \<Rightarrow> int" where
  "ilog2 a =
     (case quotient_of a of (p, q) \<Rightarrow>
        (let g = bitlen p - bitlen q in if pow2 g \<le> a then g else g - 1))"

text \<open>
  Rounding to binary64: 53 significant bits, the least exponent \<open>-1022\<close> (below it the
  numbers are subnormal, spaced \<open>2 ^ -1074\<close> apart), and a rounded magnitude of
  \<open>2 ^ 1024\<close> or more is an infinity.
\<close>

definition round_binary64 :: "rat \<Rightarrow> pyfloat" where
  "round_binary64 x =
     (if x = 0 then Finite 0
      else
        (let a = \<bar>x\<bar>;
             e = max (ilog2 a) (- 1022);
             q = pow2 (e - 52);
             m = of_int (round_half_even (a / q)) * q
         in if pow2 1024 \<le> m then (if 0 < x then PosInf else NegInf)
            else Finite (sgn x * m)))"

text \<open>
  A decimal float literal (in the source, or in the JSON body of a service response)
  denotes the binary64 number nearest to it.
\<close>

definition float_literal :: "rat \<Rightarrow> pyfloat" where
  "float_literal x = round_binary64 x"

text \<open>The operator \<^verbatim>\<open>+\<close> on two floats.\<close>

fun float_add :: "pyfloat \<Rightarrow> pyfloat \<Rightarrow> pyfloat" where
  "float_add NaN _ = NaN"
| "float_add _ NaN = NaN"
| "float_add PosInf NegInf = NaN"
| "float_add NegInf PosInf = NaN"
| "float_add PosInf _ = PosInf"
| "float_add _ PosInf = PosInf"
| "float_add NegInf _ = NegInf"
| "float_add _ NegInf = NegInf"
| "float_add (Finite a) (Finite b) = round_binary64 (a + b)"

text \<open>The operators \<^verbatim>\<open><\<close> and \<^verbatim>\<open>>=\<close>: every comparison with a NaN is false.\<close>

fun float_lt :: "pyfloat \<Rightarrow> pyfloat \<Rightarrow> bool" where
  "float_lt NaN _ = False"
| "float_lt _ NaN = False"
| "float_lt _ NegInf = False"
| "float_lt PosInf _ = False"
| "float_lt NegInf _ = True"
| "float_lt _ PosInf = True"
| "float_lt (Finite a) (Finite b) = (a < b)"

fun float_ge :: "pyfloat \<Rightarrow> pyfloat \<Rightarrow> bool" where
  "float_ge NaN _ = False"
| "float_ge _ NaN = False"
| "float_ge PosInf _ = True"
| "float_ge _ NegInf = True"
| "float_ge NegInf _ = False"
| "float_ge _ PosInf = False"
| "float_ge (Finite a) (Finite b) = (b \<le> a)"

section \<open>Data model\<close>

text \<open>
  One element of \<^verbatim>\<open>response["CustomLabels"]\<close>, with the keys the notebook reads:
  \<^verbatim>\<open>l["Name"]\<close>, \<^verbatim>\<open>l["Confidence"]\<close> and
  \<^verbatim>\<open>l["Geometry"]["BoundingBox"]\<close> with \<^verbatim>\<open>Left\<close>, \<^verbatim>\<open>Top\<close>,
  \<^verbatim>\<open>Width\<close>, \<^verbatim>\<open>Height\<close>.
\<close>

record bounding_box =
  Left :: pyfloat
  Top :: pyfloat
  Width :: pyfloat
  Height :: pyfloat

record geometry =
  BoundingBox :: bounding_box

record custom_label =
  Name :: string
  Confidence :: pyfloat
  Geometry :: geometry

text \<open>
  A row of \<^verbatim>\<open>result\<close>: \<^verbatim>\<open>[class_ix, confidence, x1, y1, x2, y2]\<close>.
\<close>

type_synonym detection = "nat \<times> pyfloat \<times> pyfloat \<times> pyfloat \<times> pyfloat \<times> pyfloat"

definition det_confidence :: "detection \<Rightarrow> pyfloat" where
  "det_confidence d = fst (snd d)"

section \<open>Normalization\<close>

text \<open>
  \<^verbatim>\<open>CLASS_NAMES.index(x)\<close>: the position of the first element equal to \<open>x\<close>;
  \<^verbatim>\<open>ValueError\<close> when there is none.
\<close>

fun index :: "'a list \<Rightarrow> 'a \<Rightarrow> error + nat" where
  "index [] x = Inl ValueError"
| "index (y # ys) x =
     (if y = x then Inr 0
      else (case index ys x of Inl e \<Rightarrow> Inl e | Inr i \<Rightarrow> Inr (Suc i)))"

text \<open>
  The lambda mapped over the labels. Its list display is evaluated left to right, so the
  class lookup is the first thing that can raise.
\<close>

definition result_lambda :: "string list \<Rightarrow> custom_label \<Rightarrow> error + detection" where
  "result_lambda CLASS_NAMES l =
     (case index CLASS_NAMES (Name l) of
        Inl e \<Rightarrow> Inl e
      | Inr class_ix \<Rightarrow>
          Inr (class_ix,
               Confidence l,
               Left (BoundingBox (Geometry l)),
               Top (BoundingBox (Geometry l)),
               float_add (Left (BoundingBox (Geometry l))) (Width (BoundingBox (Geometry l))),
               float_add (Top (BoundingBox (Geometry l))) (Height (BoundingBox (Geometry l)))))"

text \<open>
  \<^verbatim>\<open>list(map(f, xs))\<close> for an \<open>f\<close> that may raise: the first exception ends the
  whole expression.
\<close>

fun list_map :: "('a \<Rightarrow> error + 'b) \<Rightarrow> 'a list \<Rightarrow> error + 'b list" where
  "list_map f [] = Inr []"
| "list_map f (x # xs) =
     (case f x of
        Inl e \<Rightarrow> Inl e
      | Inr y \<Rightarrow> (case list_map f xs of Inl e \<Rightarrow> Inl e | Inr ys \<Rightarrow> Inr (y # ys)))"

definition result :: "string list \<Rightarrow> custom_label list \<Rightarrow> error + detection list" where
  "result CLASS_NAMES CustomLabels = list_map (result_lambda CLASS_NAMES) CustomLabels"

section \<open>Renderer\<close>

text \<open>
  Modelled from the spec: \<^verbatim>\<open>util.visualize_detection\<close> is a module of the
  repository that is not among its source files. Section 4.3 of the specification gives its
  contract: from an image path, a sequence of detections, the class vocabulary and a display
  threshold it produces an overlay "showing only detections with confidence \<open>\<ge>\<close>
  threshold, labeling each box with its resolved class name and confidence". The overlay is
  modelled by the list of boxes drawn, in the order of the input, each with its label text
  (no class name where the class index is outside the vocabulary, which the specification
  leaves open).
\<close>

definition shown :: "pyfloat \<Rightarrow> detection list \<Rightarrow> detection list" where
  "shown thresh dets = filter (\<lambda>d. float_ge (det_confidence d) thresh) dets"

definition class_label :: "string list \<Rightarrow> detection \<Rightarrow> string option" where
  "class_label classes d = (if fst d < length classes then Some (classes ! fst d) else None)"

definition visualize_detection ::
  "string \<Rightarrow> detection list \<Rightarrow> string list \<Rightarrow> pyfloat
     \<Rightarrow> (string option \<times> pyfloat \<times> detection) list" where
  "visualize_detection img_file dets classes thresh =
     map (\<lambda>d. (class_label classes d, det_confidence d, d)) (shown thresh dets)"

section \<open>The notebook\<close>

subsection \<open>Effects\<close>

text \<open>
  What a run of the notebook does to the world outside it, in order: the shell command of
  the first code cell, the requests made through the AWS SDK, and what is put on the
  screen. \<open>VisualizeDetection\<close> records the arguments the renderer is called with.
\<close>

type_synonym bytes = "char list"

datatype event =
    Shell string
  | GetExecutionRole
  | HeadBucket string
  | StartProjectVersion string nat
  | DetectCustomLabels string bytes "pyfloat option"
  | StopProjectVersion string
  | Print string
  | DisplayHTML string
  | VisualizeDetection string "detection list" "string list" pyfloat

text \<open>
  The remote calls: the requests to the AWS services (the remote collaborators of
  section 6 of the specification), all of them made through the SDK.
\<close>

fun is_remote_call :: "event \<Rightarrow> bool" where
  "is_remote_call GetExecutionRole = True"
| "is_remote_call (HeadBucket _) = True"
| "is_remote_call (StartProjectVersion _ _) = True"
| "is_remote_call (DetectCustomLabels _ _ _) = True"
| "is_remote_call (StopProjectVersion _) = True"
| "is_remote_call _ = False"

text \<open>Model deployment and inference, among them.\<close>

fun is_deploy_or_inference :: "event \<Rightarrow> bool" where
  "is_deploy_or_inference (StartProjectVersion _ _) = True"
| "is_deploy_or_inference (DetectCustomLabels _ _ _) = True"
| "is_deploy_or_inference _ = False"

text \<open>
  A computation yields the events it caused and either the exception that ended it or its
  value. An exception ends the cell that raises it and the run of the notebook.
\<close>

type_synonym 'a run = "event list \<times> (error + 'a)"

definition ret :: "'a \<Rightarrow> 'a run" where
  "ret x = ([], Inr x)"

definition raise :: "error \<Rightarrow> 'a run" where
  "raise e = ([], Inl e)"

definition emit :: "event \<Rightarrow> unit run" where
  "emit ev = ([ev], Inr ())"

definition lift :: "error + 'a \<Rightarrow> 'a run" where
  "lift r = ([], r)"

definition request :: "event \<Rightarrow> error + 'a \<Rightarrow> 'a run" where
  "request ev answer = ([ev], answer)"

definition bind_run :: "'a run \<Rightarrow> ('a \<Rightarrow> 'b run) \<Rightarrow> 'b run" where
  "bind_run m f =
     (case m of
        (t, Inl e) \<Rightarrow> (t, Inl e)
      | (t, Inr x) \<Rightarrow> (case f x of (t', r) \<Rightarrow> (t @ t', r)))"

definition py_assert :: "bool \<Rightarrow> unit run" where
  "py_assert b = (if b then ret () else raise AssertionError)"

fun for_each :: "('a \<Rightarrow> unit run) \<Rightarrow> 'a list \<Rightarrow> unit run" where
  "for_each body [] = ret ()"
| "for_each body (x # xs) = bind_run (body x) (\<lambda>_. for_each body xs)"

subsection \<open>The environment of a run\<close>

text \<open>
  Everything the notebook reads from outside: the IPython store written by the data
  preparation notebook, the region of the SDK session (\<^verbatim>\<open>None\<close> when none is
  configured), the answers of the services, the file system, and the two values the user
  fills in by hand (\<^verbatim>\<open>model_arn\<close>, which the source leaves blank, and
  \<^verbatim>\<open>override_confidence\<close>, which the source invites the user to change).
\<close>

record env =
  stored_BUCKET_NAME :: "string option"
  stored_CLASS_NAMES :: "string list option"
  stored_test_image_folder :: "string option"
  get_execution_role :: "error + string"
  region_name :: "string option"
  head_bucket :: "string \<Rightarrow> error + (string \<rightharpoonup> string)"
  model_arn :: string
  start_project_version :: "string \<Rightarrow> nat \<Rightarrow> error + unit"
  override_confidence :: "pyfloat option"
  listdir :: "string \<Rightarrow> error + string list"
  read_file :: "string \<Rightarrow> error + bytes"
  detect_custom_labels :: "string \<Rightarrow> bytes \<Rightarrow> pyfloat option \<Rightarrow> error + custom_label list"
  stop_project_version :: "string \<Rightarrow> error + unit"

record config =
  BUCKET_NAME :: string
  CLASS_NAMES :: "string list"
  test_image_folder :: string

subsection \<open>Configuration cell\<close>

text \<open>
  \<^verbatim>\<open>%store -r X\<close> defines \<open>X\<close> when the store has it and only prints a message
  when it has not; \<^verbatim>\<open>assert X, "..."\<close> then raises \<^verbatim>\<open>NameError\<close> for an
  undefined \<open>X\<close> and \<^verbatim>\<open>AssertionError\<close> for an empty one.
\<close>

definition restore_and_assert :: "'a list option \<Rightarrow> 'a list run" where
  "restore_and_assert stored =
     (case stored of
        None \<Rightarrow> raise NameError
      | Some v \<Rightarrow> bind_run (py_assert (v \<noteq> [])) (\<lambda>_. ret v))"

definition cell_configuration :: "env \<Rightarrow> config run" where
  "cell_configuration E =
     bind_run (restore_and_assert (stored_BUCKET_NAME E)) (\<lambda>b.
     bind_run (restore_and_assert (stored_CLASS_NAMES E)) (\<lambda>c.
     bind_run (restore_and_assert (stored_test_image_folder E)) (\<lambda>t.
     ret \<lparr>BUCKET_NAME = b, CLASS_NAMES = c, test_image_folder = t\<rparr>)))"

subsection \<open>Connection cell\<close>

definition subscript :: "('k \<rightharpoonup> 'v) \<Rightarrow> 'k \<Rightarrow> 'v run" where
  "subscript d k = (case d k of None \<Rightarrow> raise KeyError | Some v \<Rightarrow> ret v)"

definition cell_connect :: "env \<Rightarrow> config \<Rightarrow> unit run" where
  "cell_connect E C =
     bind_run (request GetExecutionRole (get_execution_role E)) (\<lambda>role.
     bind_run (request (HeadBucket (BUCKET_NAME C)) (head_bucket E (BUCKET_NAME C))) (\<lambda>headers.
     bind_run (subscript headers ''x-amz-bucket-region'') (\<lambda>bucket_region.
     bind_run (py_assert (Some bucket_region = region_name E)) (\<lambda>_.
     if region_name E \<noteq> Some ''us-east-1''
     then emit (Print ''WARNING: Rekognition Custom Labels functionality is only available in us-east-1 at launch'')
     else ret ()))))"

subsection \<open>Deployment cell\<close>

definition cell_deploy :: "env \<Rightarrow> unit run" where
  "cell_deploy E =
     request (StartProjectVersion (model_arn E) 1) (start_project_version E (model_arn E) 1)"

subsection \<open>Inference cell\<close>

text \<open>
  \<^verbatim>\<open>rekognition.detect_custom_labels(..., MinConfidence=override_confidence)\<close>: the
  cell passes the keyword in every call, whatever the value of \<^verbatim>\<open>override_confidence\<close>.
  The SDK checks the parameters of a call against the service's description before it
  sends anything: \<^verbatim>\<open>MinConfidence\<close> is a number with the minimum 0, so \<^verbatim>\<open>None\<close>
  (not a number) and a number below 0 end the call with \<^verbatim>\<open>ParamValidationError\<close>, and
  no request is made. The maximum of 100 is left to the service to enforce.
\<close>

definition validate_MinConfidence :: "pyfloat option \<Rightarrow> unit run" where
  "validate_MinConfidence MinConfidence =
     (case MinConfidence of
        None \<Rightarrow> raise ParamValidationError
      | Some v \<Rightarrow> if float_lt v (Finite 0) then raise ParamValidationError else ret ())"

definition process_image :: "env \<Rightarrow> config \<Rightarrow> string \<Rightarrow> unit run" where
  "process_image E C test_image =
     (let test_image_path = test_image_folder C @ ''/'' @ test_image in
      bind_run (lift (read_file E test_image_path)) (\<lambda>payload.
      bind_run (validate_MinConfidence (override_confidence E)) (\<lambda>_.
      bind_run (request (DetectCustomLabels (model_arn E) payload (override_confidence E))
                  (detect_custom_labels E (model_arn E) payload (override_confidence E)))
        (\<lambda>CustomLabels.
      bind_run (lift (result (CLASS_NAMES C) CustomLabels)) (\<lambda>res.
      bind_run (emit (DisplayHTML (''<h4>'' @ test_image @ ''</h4>''))) (\<lambda>_.
      emit (VisualizeDetection test_image_path res (CLASS_NAMES C) (Finite 0))))))))"

definition cell_inference :: "env \<Rightarrow> config \<Rightarrow> unit run" where
  "cell_inference E C =
     bind_run (lift (listdir E (test_image_folder C))) (\<lambda>images.
     for_each (process_image E C) images)"

subsection \<open>Clean-up cell\<close>

definition cell_cleanup :: "env \<Rightarrow> unit run" where
  "cell_cleanup E = request (StopProjectVersion (model_arn E)) (stop_project_version E (model_arn E))"

subsection \<open>The code cells, top to bottom\<close>

definition notebook :: "env \<Rightarrow> unit run" where
  "notebook E =
     bind_run (emit (Shell ''pip install --upgrade awscli boto3'')) (\<lambda>_.
     bind_run (cell_configuration E) (\<lambda>C.
     bind_run (cell_connect E C) (\<lambda>_.
     bind_run (cell_deploy E) (\<lambda>_.
     bind_run (cell_inference E C) (\<lambda>_.
     cell_cleanup E)))))"

section \<open>Properties of the float model\<close>

lemma pow2_powi: "pow2 e = 2 powi e"
  by (simp add: pow2_def power_int_def power_one_over inverse_eq_divide)

lemma pow2_pos: "0 < pow2 e"
  by (simp add: pow2_powi)

lemma pow2_mono: "a \<le> b \<Longrightarrow> pow2 a \<le> pow2 b"
  by (simp add: pow2_powi power_int_increasing)

lemma pow2_strict_mono: "a < b \<Longrightarrow> pow2 a < pow2 b"
  by (simp add: pow2_powi power_int_strict_increasing)

lemma pow2_less_cancel: "pow2 a < pow2 b \<Longrightarrow> a < b"
  using pow2_mono [of b a] by (cases "a < b") auto

lemma pow2_diff: "pow2 a / pow2 b = pow2 (a - b)"
  by (simp add: pow2_powi power_int_diff)

lemma of_int_bitlen_bounds:
  assumes "0 < p"
  shows "pow2 (bitlen p - 1) \<le> of_int p" and "of_int p < pow2 (bitlen p)"
proof -
  from assms have b: "2 ^ nat (bitlen p - 1) \<le> p" "p < 2 ^ nat (bitlen p)"
    using bitlen_bounds [of p] by auto
  have ge1: "1 \<le> bitlen p"
    using assms bitlen_nonneg [of p] bitlen_eq_zero_iff [of p] by (cases "bitlen p = 0") auto
  have "(of_int (2 ^ nat (bitlen p - 1)) :: rat) \<le> of_int p"
    using b(1) of_int_le_iff by blast
  then show "pow2 (bitlen p - 1) \<le> of_int p"
    using ge1 by (simp add: pow2_def)
  have "(of_int p :: rat) < of_int (2 ^ nat (bitlen p))"
    using b(2) of_int_less_iff by blast
  then show "of_int p < pow2 (bitlen p)"
    using ge1 by (simp add: pow2_def)
qed

lemma ilog2_guess:
  assumes "0 < a" and "quotient_of a = (p, q)"
  shows "pow2 (bitlen p - bitlen q - 1) < a" and "a < pow2 (bitlen p - bitlen q + 1)"
proof -
  have q: "0 < q" using assms(2) by (rule quotient_of_denom_pos)
  have a: "a = of_int p / of_int q" using assms(2) by (rule quotient_of_div)
  have p: "0 < p" using assms(1) q a by (simp add: zero_less_divide_iff)
  note P = of_int_bitlen_bounds [OF p] and Q = of_int_bitlen_bounds [OF q]
  have qr: "(0::rat) < of_int q" using q by simp
  have pr: "(0::rat) < of_int p" using p by simp
  have "pow2 (bitlen p - 1) / pow2 (bitlen q) < of_int p / of_int q"
    using P(1) Q(2) qr pr pow2_pos [of "bitlen q"] pow2_pos [of "bitlen p - 1"]
    by (meson frac_less2 less_le_trans)
  then show "pow2 (bitlen p - bitlen q - 1) < a"
    by (simp add: a pow2_diff algebra_simps)
  have "of_int p / of_int q < pow2 (bitlen p) / pow2 (bitlen q - 1)"
    using P(2) Q(1) qr pr pow2_pos [of "bitlen q - 1"]
    by (meson frac_less less_imp_le)
  then show "a < pow2 (bitlen p - bitlen q + 1)"
    by (simp add: a pow2_diff algebra_simps)
qed

lemma ilog2_eqI:
  assumes "pow2 e \<le> a" and "a < pow2 (e + 1)"
  shows "ilog2 a = e"
proof -
  have pos: "0 < a" using assms(1) pow2_pos [of e] by simp
  obtain p q where pq: "quotient_of a = (p, q)" by (cases "quotient_of a")
  define g where "g = bitlen p - bitlen q"
  have lo: "pow2 (g - 1) < a" and hi: "a < pow2 (g + 1)"
    using ilog2_guess [OF pos pq] by (simp_all add: g_def)
  have "pow2 e < pow2 (g + 1)" using assms(1) hi by simp
  then have eg: "e \<le> g" using pow2_less_cancel by fastforce
  have "pow2 (g - 1) < pow2 (e + 1)" using lo assms(2) by simp
  then have ge: "g - 1 \<le> e" using pow2_less_cancel by fastforce
  show ?thesis
  proof (cases "pow2 g \<le> a")
    case True
    then have "pow2 g < pow2 (e + 1)" using assms(2) by simp
    then have "g \<le> e" using pow2_less_cancel by fastforce
    with eg True show ?thesis by (simp add: ilog2_def pq g_def Let_def)
  next
    case False
    then have "pow2 e < pow2 g" using assms(1) by simp
    then have "e < g" by (rule pow2_less_cancel)
    with ge False show ?thesis by (simp add: ilog2_def pq g_def Let_def)
  qed
qed

lemma floor_rat_numeral: "\<lfloor>numeral a / numeral b :: rat\<rfloor> = numeral a div numeral b"
  by (metis floor_divide_of_int_eq of_int_numeral)

lemma round_binary64_normal:
  assumes "pow2 e \<le> x" and "x < pow2 (e + 1)" and "- 1022 \<le> e"
    and "v = of_int (round_half_even (x / pow2 (e - 52))) * pow2 (e - 52)"
    and "v < pow2 1024"
  shows "round_binary64 x = Finite v"
proof -
  have pos: "0 < x" using assms(1) pow2_pos [of e] by simp
  have e: "ilog2 x = e" using assms(1,2) by (rule ilog2_eqI)
  have m: "max e (- 1022) = e" using assms(3) by simp
  from pos have ax: "\<bar>x\<bar> = x" "sgn x = 1" "x \<noteq> 0" by simp_all
  show ?thesis
    using assms(5) ax(3) unfolding round_binary64_def Let_def ax(1,2) e m assms(4) by simp
qed

lemmas float_eval = pow2_def round_half_even_def Let_def floor_rat_numeral

lemma lit_0_1: "float_literal (1 / 10) = Finite (3602879701896397 / 36028797018963968)"
  unfolding float_literal_def
  by (rule round_binary64_normal [where e = "- 4"]) (simp_all add: float_eval)

lemma lit_0_2: "float_literal (2 / 10) = Finite (3602879701896397 / 18014398509481984)"
  unfolding float_literal_def
  by (rule round_binary64_normal [where e = "- 3"]) (simp_all add: float_eval)

lemma lit_0_3: "float_literal (3 / 10) = Finite (5404319552844595 / 18014398509481984)"
  unfolding float_literal_def
  by (rule round_binary64_normal [where e = "- 2"]) (simp_all add: float_eval)

lemma lit_0_4: "float_literal (4 / 10) = Finite (3602879701896397 / 9007199254740992)"
  unfolding float_literal_def
  by (rule round_binary64_normal [where e = "- 2"]) (simp_all add: float_eval)

lemma lit_0_6: "float_literal (6 / 10) = Finite (5404319552844595 / 9007199254740992)"
  unfolding float_literal_def
  by (rule round_binary64_normal [where e = "- 1"]) (simp_all add: float_eval)

lemma lit_0_6000000000000001:
  "float_literal (6000000000000001 / 10000000000000000) = Finite (5404319552844596 / 9007199254740992)"
  unfolding float_literal_def
  by (rule round_binary64_normal [where e = "- 1"]) (simp_all add: float_eval)

lemma add_0_1_0_3: "float_add (float_literal (1 / 10)) (float_literal (3 / 10)) = float_literal (4 / 10)"
  unfolding lit_0_1 lit_0_3 lit_0_4 float_add.simps
  by (rule round_binary64_normal [where e = "- 2"]) (simp_all add: float_eval)

lemma add_0_2_0_4:
  "float_add (float_literal (2 / 10)) (float_literal (4 / 10)) =
   float_literal (6000000000000001 / 10000000000000000)"
  unfolding lit_0_2 lit_0_4 lit_0_6000000000000001 float_add.simps
  by (rule round_binary64_normal [where e = "- 1"]) (simp_all add: float_eval)

lemma lit_0_6_differs:
  "float_literal (6000000000000001 / 10000000000000000) \<noteq> float_literal (6 / 10)"
  unfolding lit_0_6 lit_0_6000000000000001 by simp

lemma lit_0_9: "float_literal (9 / 10) = Finite (8106479329266893 / 9007199254740992)"
  unfolding float_literal_def
  by (rule round_binary64_normal [where e = "- 1"]) (simp_all add: float_eval)

lemma lit_1_2: "float_literal (12 / 10) = Finite (5404319552844595 / 4503599627370496)"
  unfolding float_literal_def
  by (rule round_binary64_normal [where e = 0]) (simp_all add: float_eval)

lemma add_0_9_0_3: "float_add (float_literal (9 / 10)) (float_literal (3 / 10)) = float_literal (12 / 10)"
  unfolding lit_0_9 lit_0_3 lit_1_2 float_add.simps
  by (rule round_binary64_normal [where e = 0]) (simp_all add: float_eval)

lemma lit_1_2_above_one: "float_lt (Finite 1) (float_literal (12 / 10))"
  unfolding lit_1_2 by simp

lemma add_quarter_half: "float_add (Finite (1 / 4)) (Finite (1 / 2)) = Finite (3 / 4)"
  unfolding float_add.simps
  by (rule round_binary64_normal [where e = "- 1"]) (simp_all add: float_eval)

section \<open>Properties of the normalization helpers\<close>

lemma index_absent: "x \<notin> set xs \<Longrightarrow> index xs x = Inl ValueError"
  by (induction xs) auto

lemma index_present:
  "x \<in> set xs \<Longrightarrow> \<exists>i. index xs x = Inr i \<and> i < length xs \<and> xs ! i = x \<and> (\<forall>j<i. xs ! j \<noteq> x)"
proof (induction xs)
  case Nil
  then show ?case by simp
next
  case (Cons y ys)
  show ?case
  proof (cases "y = x")
    case True
    then show ?thesis by simp
  next
    case False
    with Cons.prems have "x \<in> set ys" by simp
    then obtain i where i: "index ys x = Inr i" "i < length ys" "ys ! i = x" "\<forall>j<i. ys ! j \<noteq> x"
      using Cons.IH by blast
    have "\<forall>j<Suc i. (y # ys) ! j \<noteq> x"
    proof (intro allI impI)
      fix j assume "j < Suc i"
      then show "(y # ys) ! j \<noteq> x" using False i(4) by (cases j) auto
    qed
    with False i show ?thesis by simp
  qed
qed

lemma list_map_total:
  "\<forall>x\<in>set xs. \<exists>y. f x = Inr y \<Longrightarrow>
   \<exists>ys. list_map f xs = Inr ys \<and> length ys = length xs \<and> (\<forall>k<length xs. f (xs ! k) = Inr (ys ! k))"
proof (induction xs)
  case Nil
  then show ?case by simp
next
  case (Cons x xs)
  then obtain y where y: "f x = Inr y" by auto
  from Cons obtain ys where ys: "list_map f xs = Inr ys" "length ys = length xs"
      "\<forall>k<length xs. f (xs ! k) = Inr (ys ! k)" by auto
  have "\<forall>k<length (x # xs). f ((x # xs) ! k) = Inr ((y # ys) ! k)"
  proof (intro allI impI)
    fix k assume "k < length (x # xs)"
    then show "f ((x # xs) ! k) = Inr ((y # ys) ! k)" using y ys(3) by (cases k) auto
  qed
  with y ys show ?case by simp
qed

lemma float_ge_lt_trans: "float_lt t1 t2 \<Longrightarrow> float_ge c t2 \<Longrightarrow> float_ge c t1"
  by (cases t1; cases t2; cases c) auto

lemma result_lambda_present:
  "Name l \<in> set V \<Longrightarrow>
   \<exists>i. result_lambda V l =
          Inr (i, Confidence l, Left (BoundingBox (Geometry l)), Top (BoundingBox (Geometry l)),
               float_add (Left (BoundingBox (Geometry l))) (Width (BoundingBox (Geometry l))),
               float_add (Top (BoundingBox (Geometry l))) (Height (BoundingBox (Geometry l))))
        \<and> i < length V \<and> V ! i = Name l \<and> (\<forall>j<i. V ! j \<noteq> Name l)"
  using index_present [of "Name l" V] by (auto simp: result_lambda_def)

lemma list_map_Inr:
  "list_map f xs = Inr ys \<Longrightarrow> list_all2 (\<lambda>x y. f x = Inr y) xs ys"
  by (induction xs arbitrary: ys) (auto split: sum.splits)

lemma result_lambda_confidence:
  "result_lambda V l = Inr d \<Longrightarrow> det_confidence d = Confidence l"
  by (auto simp: result_lambda_def det_confidence_def split: sum.splits)

lemma result_confidences:
  assumes "result V ls = Inr ds"
  shows "length ds = length ls" and "map det_confidence ds = map Confidence ls"
proof -
  have a: "list_all2 (\<lambda>l d. result_lambda V l = Inr d) ls ds"
    using assms unfolding result_def by (rule list_map_Inr)
  then show len: "length ds = length ls" by (simp add: list_all2_lengthD)
  show "map det_confidence ds = map Confidence ls"
  proof (rule nth_equalityI)
    show "length (map det_confidence ds) = length (map Confidence ls)" using len by simp
  next
    fix k assume "k < length (map det_confidence ds)"
    then have k: "k < length ls" "k < length ds" using len by simp_all
    have "result_lambda V (ls ! k) = Inr (ds ! k)"
      using list_all2_nthD [OF a k(1)] by simp
    then show "map det_confidence ds ! k = map Confidence ls ! k"
      using k result_lambda_confidence by simp
  qed
qed

lemma shown_all:
  "\<forall>d\<in>set ds. float_ge (det_confidence d) t \<Longrightarrow> shown t ds = ds"
  by (simp add: shown_def)

section \<open>Properties of runs\<close>

lemmas run_defs = bind_run_def ret_def raise_def emit_def lift_def request_def py_assert_def

lemma fst_bind_run:
  "fst (bind_run m f) = fst m @ (case snd m of Inl e \<Rightarrow> [] | Inr x \<Rightarrow> fst (f x))"
  by (cases m) (auto simp: bind_run_def split: sum.splits prod.splits)

lemma restore_and_assert_cases:
  "restore_and_assert s = ([], Inl NameError) \<and> s = None \<or>
   restore_and_assert s = ([], Inl AssertionError) \<and> s = Some [] \<or>
   (\<exists>v. restore_and_assert s = ([], Inr v) \<and> s = Some v \<and> v \<noteq> [])"
  by (cases s) (auto simp: restore_and_assert_def run_defs)

lemma cell_configuration_cases:
  "(\<exists>e. cell_configuration E = ([], Inl e) \<and> (e = NameError \<or> e = AssertionError)) \<or>
   (\<exists>b c t. cell_configuration E = ([], Inr \<lparr>BUCKET_NAME = b, CLASS_NAMES = c, test_image_folder = t\<rparr>)
      \<and> stored_BUCKET_NAME E = Some b \<and> b \<noteq> []
      \<and> stored_CLASS_NAMES E = Some c \<and> c \<noteq> []
      \<and> stored_test_image_folder E = Some t \<and> t \<noteq> [])"
  using restore_and_assert_cases [of "stored_BUCKET_NAME E"]
        restore_and_assert_cases [of "stored_CLASS_NAMES E"]
        restore_and_assert_cases [of "stored_test_image_folder E"]
  unfolding cell_configuration_def
  by (elim disjE exE conjE) (simp_all add: bind_run_def ret_def)

lemma cell_connect_mismatch:
  assumes "get_execution_role E = Inr role"
    and "head_bucket E (BUCKET_NAME C) = Inr headers"
    and "headers ''x-amz-bucket-region'' = Some bucket_region"
    and "Some bucket_region \<noteq> region_name E"
  shows "cell_connect E C = ([GetExecutionRole, HeadBucket (BUCKET_NAME C)], Inl AssertionError)"
  using assms by (simp add: cell_connect_def subscript_def run_defs)

lemma process_image_visualize:
  assumes "VisualizeDetection p ds cs t \<in> set (fst (process_image E C img))"
  shows "t = Finite 0 \<and> cs = CLASS_NAMES C \<and> p = test_image_folder C @ ''/'' @ img \<and>
         (\<exists>payload ls. read_file E p = Inr payload \<and>
            detect_custom_labels E (model_arn E) payload (override_confidence E) = Inr ls \<and>
            result cs ls = Inr ds)"
  using assms
  by (auto simp: process_image_def validate_MinConfidence_def run_defs Let_def
      split: sum.splits option.splits if_splits)

lemma for_each_events:
  "ev \<in> set (fst (for_each body xs)) \<Longrightarrow> \<exists>x\<in>set xs. ev \<in> set (fst (body x))"
proof (induction xs)
  case Nil
  then show ?case by (simp add: ret_def)
next
  case (Cons x xs)
  then show ?case
    by (auto simp: fst_bind_run split: sum.splits)
qed

lemma cell_inference_visualize:
  assumes "VisualizeDetection p ds cs t \<in> set (fst (cell_inference E C))"
  shows "\<exists>img. VisualizeDetection p ds cs t \<in> set (fst (process_image E C img))"
proof -
  from assms obtain images where
    "VisualizeDetection p ds cs t \<in> set (fst (for_each (process_image E C) images))"
    by (auto simp: cell_inference_def fst_bind_run lift_def split: sum.splits)
  then show ?thesis using for_each_events by fast
qed

lemma cell_configuration_silent: "fst (cell_configuration E) = []"
  using cell_configuration_cases [of E] by auto

lemma notebook_visualize:
  assumes "VisualizeDetection p ds cs t \<in> set (fst (notebook E))"
  shows "\<exists>C img. VisualizeDetection p ds cs t \<in> set (fst (process_image E C img))"
proof -
  have "\<exists>C. VisualizeDetection p ds cs t \<in> set (fst (cell_inference E C))"
    using assms
    by (auto simp: notebook_def fst_bind_run cell_configuration_silent emit_def
        cell_connect_def cell_deploy_def
        cell_cleanup_def request_def subscript_def raise_def ret_def py_assert_def
        split: sum.splits option.splits if_splits)
  then show ?thesis using cell_inference_visualize by blast
qed

section \<open>Normalization of the service response\<close>

text \<open>
  C1. For every label whose class name is in the vocabulary, the row built from it has
  \<open>x1 = Left\<close>, \<open>y1 = Top\<close>, \<open>x2 = Left + Width\<close> and \<open>y2 = Top + Height\<close>,
  where \<open>+\<close> is the addition of the source (on floats), and the confidence unchanged. The
  four coordinates are these values whatever their size: nothing is clamped to \<open>[0, 1]\<close> or
  to any other range.
\<close>

theorem corner_conversion_exact:
  "Name l \<in> set V \<Longrightarrow>
   \<exists>i. result_lambda V l =
          Inr (i, Confidence l, Left (BoundingBox (Geometry l)), Top (BoundingBox (Geometry l)),
               float_add (Left (BoundingBox (Geometry l))) (Width (BoundingBox (Geometry l))),
               float_add (Top (BoundingBox (Geometry l))) (Height (BoundingBox (Geometry l))))"
  using result_lambda_present by blast

text \<open>
  At a box that leaves the image on the right (\<open>Left = 0.9\<close>, \<open>Width = 0.3\<close>) the
  right edge is \<open>1.2\<close>, above 1.
\<close>

theorem corner_conversion_exact_witness:
  "''cats'' \<in> set [''boots'', ''cats''] \<and>
   result_lambda [''boots'', ''cats'']
     \<lparr>Name = ''cats'', Confidence = float_literal (185 / 2),
      Geometry = \<lparr>BoundingBox = \<lparr>Left = float_literal (9 / 10), Top = float_literal (2 / 10),
                                  Width = float_literal (3 / 10), Height = float_literal (4 / 10)\<rparr>\<rparr>\<rparr>
   = Inr (1, float_literal (185 / 2), float_literal (9 / 10), float_literal (2 / 10),
          float_literal (12 / 10), float_literal (6000000000000001 / 10000000000000000)) \<and>
   float_lt (Finite 1) (float_literal (12 / 10))"
  using corner_conversion_exact [of
      "\<lparr>Name = ''cats'', Confidence = float_literal (185 / 2),
        Geometry = \<lparr>BoundingBox = \<lparr>Left = float_literal (9 / 10), Top = float_literal (2 / 10),
                                    Width = float_literal (3 / 10), Height = float_literal (4 / 10)\<rparr>\<rparr>\<rparr>"
      "[''boots'', ''cats'']"]
    add_0_9_0_3 add_0_2_0_4 lit_1_2_above_one
  by (simp add: result_lambda_def)

text \<open>
  C2, as the code has it. A class name that is in the vocabulary resolves to the position
  of its first occurrence; a class name that is not makes the normalization fail, with
  \<^verbatim>\<open>ValueError\<close>, and no class index is produced.
\<close>

theorem class_lookup_first_index_or_ValueError:
  "(Name l \<in> set V \<longrightarrow>
      (\<exists>d. result_lambda V l = Inr d \<and> fst d < length V \<and> V ! fst d = Name l \<and>
           (\<forall>j<fst d. V ! j \<noteq> Name l))) \<and>
   (Name l \<notin> set V \<longrightarrow> result_lambda V l = Inl ValueError)"
proof (intro conjI impI)
  assume "Name l \<in> set V"
  then show "\<exists>d. result_lambda V l = Inr d \<and> fst d < length V \<and> V ! fst d = Name l \<and>
           (\<forall>j<fst d. V ! j \<noteq> Name l)"
    using result_lambda_present [of l V] by auto
next
  assume "Name l \<notin> set V"
  then show "result_lambda V l = Inl ValueError"
    by (simp add: result_lambda_def index_absent)
qed

theorem class_lookup_first_index_or_ValueError_witness:
  "''cats'' \<in> set [''boots'', ''cats''] \<and>
   result_lambda [''boots'', ''cats'']
     \<lparr>Name = ''cats'', Confidence = Finite 90,
      Geometry = \<lparr>BoundingBox = \<lparr>Left = Finite (1 / 4), Top = Finite (1 / 4),
                                  Width = Finite (1 / 2), Height = Finite (1 / 2)\<rparr>\<rparr>\<rparr>
   = Inr (1, Finite 90, Finite (1 / 4), Finite (1 / 4), Finite (3 / 4), Finite (3 / 4)) \<and>
   ''hats'' \<notin> set [''boots'', ''cats''] \<and>
   result_lambda [''boots'', ''cats'']
     \<lparr>Name = ''hats'', Confidence = Finite 90,
      Geometry = \<lparr>BoundingBox = \<lparr>Left = Finite (1 / 4), Top = Finite (1 / 4),
                                  Width = Finite (1 / 2), Height = Finite (1 / 2)\<rparr>\<rparr>\<rparr>
   = Inl ValueError"
  using class_lookup_first_index_or_ValueError [of
      "\<lparr>Name = ''cats'', Confidence = Finite 90,
        Geometry = \<lparr>BoundingBox = \<lparr>Left = Finite (1 / 4), Top = Finite (1 / 4),
                                    Width = Finite (1 / 2), Height = Finite (1 / 2)\<rparr>\<rparr>\<rparr>"
      "[''boots'', ''cats'']"]
    class_lookup_first_index_or_ValueError [of
      "\<lparr>Name = ''hats'', Confidence = Finite 90,
        Geometry = \<lparr>BoundingBox = \<lparr>Left = Finite (1 / 4), Top = Finite (1 / 4),
                                    Width = Finite (1 / 2), Height = Finite (1 / 2)\<rparr>\<rparr>\<rparr>"
      "[''boots'', ''cats'']"]
    add_quarter_half
  by (simp add: result_lambda_def)

text \<open>
  The failure for the unknown name \<^verbatim>\<open>"hats"\<close> is a \<^verbatim>\<open>ValueError\<close>, which is not
  an instance of \<^verbatim>\<open>LookupError\<close>.
\<close>

theorem unknown_class_raises_ValueError_not_LookupError:
  "result_lambda [''boots'', ''cats'']
     \<lparr>Name = ''hats'', Confidence = Finite 90,
      Geometry = \<lparr>BoundingBox = \<lparr>Left = Finite (1 / 4), Top = Finite (1 / 4),
                                  Width = Finite (1 / 2), Height = Finite (1 / 2)\<rparr>\<rparr>\<rparr>
   = Inl ValueError \<and> \<not> is_LookupError ValueError"
  by (simp add: result_lambda_def)

text \<open>
  C3. When every class name is in the vocabulary, \<^verbatim>\<open>result\<close> has one row per label
  of the response, the row at position \<open>k\<close> is the row built from the label at position
  \<open>k\<close>, and the confidences of the rows are the confidences of the labels in the same
  order: nothing is reordered, merged, dropped or filtered by confidence.
\<close>

theorem result_one_per_label_in_order:
  assumes "\<forall>l\<in>set ls. Name l \<in> set V"
  shows "\<exists>ds. result V ls = Inr ds \<and> length ds = length ls \<and>
              (\<forall>k<length ls. result_lambda V (ls ! k) = Inr (ds ! k)) \<and>
              map det_confidence ds = map Confidence ls"
proof -
  have "\<forall>l\<in>set ls. \<exists>d. result_lambda V l = Inr d"
    using assms result_lambda_present by blast
  then obtain ds where ds: "list_map (result_lambda V) ls = Inr ds" "length ds = length ls"
      "\<forall>k<length ls. result_lambda V (ls ! k) = Inr (ds ! k)"
    using list_map_total [of ls "result_lambda V"] by blast
  have "map det_confidence ds = map Confidence ls"
  proof (rule nth_equalityI)
    show "length (map det_confidence ds) = length (map Confidence ls)" using ds(2) by simp
  next
    fix k assume "k < length (map det_confidence ds)"
    then have k: "k < length ls" using ds(2) by simp
    then have "ls ! k \<in> set ls" by simp
    then obtain i where "result_lambda V (ls ! k) = Inr (i, Confidence (ls ! k),
        Left (BoundingBox (Geometry (ls ! k))), Top (BoundingBox (Geometry (ls ! k))),
        float_add (Left (BoundingBox (Geometry (ls ! k)))) (Width (BoundingBox (Geometry (ls ! k)))),
        float_add (Top (BoundingBox (Geometry (ls ! k)))) (Height (BoundingBox (Geometry (ls ! k)))))"
      using assms result_lambda_present [of "ls ! k" V] by blast
    with ds(3) k have "det_confidence (ds ! k) = Confidence (ls ! k)"
      by (simp add: det_confidence_def)
    with k ds(2) show "map det_confidence ds ! k = map Confidence ls ! k" by simp
  qed
  with ds show ?thesis by (auto simp: result_def)
qed

text \<open>
  A response with the same label twice and with confidences of zero keeps all three
  rows.
\<close>

theorem result_one_per_label_in_order_witness:
  "result [''boots'', ''cats'']
     [\<lparr>Name = ''cats'', Confidence = Finite 0,
       Geometry = \<lparr>BoundingBox = \<lparr>Left = Finite (1 / 4), Top = Finite (1 / 4),
                                   Width = Finite (1 / 2), Height = Finite (1 / 2)\<rparr>\<rparr>\<rparr>,
      \<lparr>Name = ''boots'', Confidence = Finite 90,
       Geometry = \<lparr>BoundingBox = \<lparr>Left = Finite (1 / 4), Top = Finite (1 / 4),
                                   Width = Finite (1 / 2), Height = Finite (1 / 2)\<rparr>\<rparr>\<rparr>,
      \<lparr>Name = ''cats'', Confidence = Finite 0,
       Geometry = \<lparr>BoundingBox = \<lparr>Left = Finite (1 / 4), Top = Finite (1 / 4),
                                   Width = Finite (1 / 2), Height = Finite (1 / 2)\<rparr>\<rparr>\<rparr>]
   = Inr [(1, Finite 0, Finite (1 / 4), Finite (1 / 4), Finite (3 / 4), Finite (3 / 4)),
          (0, Finite 90, Finite (1 / 4), Finite (1 / 4), Finite (3 / 4), Finite (3 / 4)),
          (1, Finite 0, Finite (1 / 4), Finite (1 / 4), Finite (3 / 4), Finite (3 / 4))]"
  using result_one_per_label_in_order [of
      "[\<lparr>Name = ''cats'', Confidence = Finite 0,
         Geometry = \<lparr>BoundingBox = \<lparr>Left = Finite (1 / 4), Top = Finite (1 / 4),
                                     Width = Finite (1 / 2), Height = Finite (1 / 2)\<rparr>\<rparr>\<rparr>,
        \<lparr>Name = ''boots'', Confidence = Finite 90,
         Geometry = \<lparr>BoundingBox = \<lparr>Left = Finite (1 / 4), Top = Finite (1 / 4),
                                     Width = Finite (1 / 2), Height = Finite (1 / 2)\<rparr>\<rparr>\<rparr>,
        \<lparr>Name = ''cats'', Confidence = Finite 0,
         Geometry = \<lparr>BoundingBox = \<lparr>Left = Finite (1 / 4), Top = Finite (1 / 4),
                                     Width = Finite (1 / 2), Height = Finite (1 / 2)\<rparr>\<rparr>\<rparr>]"
      "[''boots'', ''cats'']"]
    add_quarter_half
  by (simp add: result_def result_lambda_def)

text \<open>
  C4, as the code has it. For the vocabulary \<^verbatim>\<open>["boots", "cats"]\<close> and the label
  \<^verbatim>\<open>cats\<close> with confidence 92.5 and box (0.1, 0.2, 0.3, 0.4) the row is
  \<^verbatim>\<open>[1, 92.5, 0.1, 0.2, 0.4, 0.6000000000000001]\<close>: the float sum \<open>0.1 + 0.3\<close> is the
  float \<open>0.4\<close>, and the float sum \<open>0.2 + 0.4\<close> is the float next above \<open>0.6\<close>.
\<close>

theorem example_cats_normalized:
  "result [''boots'', ''cats'']
     [\<lparr>Name = ''cats'', Confidence = float_literal (185 / 2),
       Geometry = \<lparr>BoundingBox = \<lparr>Left = float_literal (1 / 10), Top = float_literal (2 / 10),
                                   Width = float_literal (3 / 10), Height = float_literal (4 / 10)\<rparr>\<rparr>\<rparr>]
   = Inr [(1, float_literal (185 / 2), float_literal (1 / 10), float_literal (2 / 10),
           float_literal (4 / 10), float_literal (6000000000000001 / 10000000000000000))] \<and>
   float_literal (6000000000000001 / 10000000000000000)
     = Finite (5404319552844596 / 9007199254740992) \<and>
   float_literal (6 / 10) = Finite (5404319552844595 / 9007199254740992)"
  using add_0_1_0_3 add_0_2_0_4 lit_0_6000000000000001 lit_0_6
  by (simp add: result_def result_lambda_def)

text \<open>
  The last component of that row is not the float \<open>0.6\<close>.
\<close>

theorem example_cats_y2_is_not_0_6:
  "result [''boots'', ''cats'']
     [\<lparr>Name = ''cats'', Confidence = float_literal (185 / 2),
       Geometry = \<lparr>BoundingBox = \<lparr>Left = float_literal (1 / 10), Top = float_literal (2 / 10),
                                   Width = float_literal (3 / 10), Height = float_literal (4 / 10)\<rparr>\<rparr>\<rparr>]
   \<noteq> Inr [(1, float_literal (185 / 2), float_literal (1 / 10), float_literal (2 / 10),
           float_literal (4 / 10), float_literal (6 / 10))]"
  using add_0_1_0_3 add_0_2_0_4 lit_0_6_differs by (simp add: result_def result_lambda_def)

text \<open>
  C10. When the class name of a label occurs at two positions \<open>i < j\<close> of the
  vocabulary, the class index of its row is the least position at which the name occurs
  (so it is at most \<open>i\<close>).
\<close>

theorem duplicate_class_name_first_occurrence:
  assumes "i < j" and "j < length V" and "V ! i = Name l" and "V ! j = Name l"
  shows "\<exists>d. result_lambda V l = Inr d \<and> fst d \<le> i \<and> V ! fst d = Name l \<and>
             (\<forall>k<length V. V ! k = Name l \<longrightarrow> fst d \<le> k)"
proof -
  have "Name l \<in> set V" using assms(2,4) nth_mem by fastforce
  then obtain d where d: "result_lambda V l = Inr d" "fst d < length V" "V ! fst d = Name l"
      "\<forall>m<fst d. V ! m \<noteq> Name l"
    using result_lambda_present [of l V] by auto
  have least: "\<forall>k<length V. V ! k = Name l \<longrightarrow> fst d \<le> k"
    using d(4) by (meson not_le)
  moreover have "fst d \<le> i" using least assms(1,2,3) by simp
  ultimately show ?thesis using d by blast
qed

theorem duplicate_class_name_first_occurrence_witness:
  "(1::nat) < 3 \<and> 3 < length [''boots'', ''cats'', ''boots'', ''cats''] \<and>
   [''boots'', ''cats'', ''boots'', ''cats''] ! 1 = ''cats'' \<and>
   [''boots'', ''cats'', ''boots'', ''cats''] ! 3 = ''cats'' \<and>
   result_lambda [''boots'', ''cats'', ''boots'', ''cats'']
     \<lparr>Name = ''cats'', Confidence = Finite 90,
      Geometry = \<lparr>BoundingBox = \<lparr>Left = Finite (1 / 4), Top = Finite (1 / 4),
                                  Width = Finite (1 / 2), Height = Finite (1 / 2)\<rparr>\<rparr>\<rparr>
   = Inr (1, Finite 90, Finite (1 / 4), Finite (1 / 4), Finite (3 / 4), Finite (3 / 4))"
  using duplicate_class_name_first_occurrence [of 1 3 "[''boots'', ''cats'', ''boots'', ''cats'']"
      "\<lparr>Name = ''cats'', Confidence = Finite 90,
        Geometry = \<lparr>BoundingBox = \<lparr>Left = Finite (1 / 4), Top = Finite (1 / 4),
                                    Width = Finite (1 / 2), Height = Finite (1 / 2)\<rparr>\<rparr>\<rparr>"]
    add_quarter_half
  by (simp add: result_lambda_def)

section \<open>Display threshold\<close>

text \<open>
  C5. Raising the display threshold from \<open>t1\<close> to \<open>t2 > t1\<close> shows a subset of the
  detections, and of the boxes drawn, that are shown at \<open>t1\<close>; a detection is shown at a
  threshold exactly when it is in the input and its confidence is at least the threshold.
\<close>

theorem threshold_filter_monotone:
  assumes "float_lt t1 t2"
  shows "set (shown t2 dets) \<subseteq> set (shown t1 dets) \<and>
         set (visualize_detection img_file dets classes t2)
           \<subseteq> set (visualize_detection img_file dets classes t1) \<and>
         (\<forall>t d. d \<in> set (shown t dets) \<longleftrightarrow> d \<in> set dets \<and> float_ge (det_confidence d) t)"
proof -
  have sub: "set (shown t2 dets) \<subseteq> set (shown t1 dets)"
    using assms float_ge_lt_trans by (auto simp: shown_def)
  then have "set (visualize_detection img_file dets classes t2)
           \<subseteq> set (visualize_detection img_file dets classes t1)"
    unfolding visualize_detection_def set_map by (rule image_mono)
  with sub show ?thesis by (auto simp: shown_def)
qed

theorem threshold_filter_monotone_witness:
  "float_lt (Finite 50) (Finite 80) \<and>
   shown (Finite 80)
     [(1, Finite 90, Finite (1 / 4), Finite (1 / 4), Finite (3 / 4), Finite (3 / 4)),
      (0, Finite 60, Finite (1 / 4), Finite (1 / 4), Finite (3 / 4), Finite (3 / 4)),
      (0, Finite 30, Finite (1 / 4), Finite (1 / 4), Finite (3 / 4), Finite (3 / 4))]
   = [(1, Finite 90, Finite (1 / 4), Finite (1 / 4), Finite (3 / 4), Finite (3 / 4))] \<and>
   shown (Finite 50)
     [(1, Finite 90, Finite (1 / 4), Finite (1 / 4), Finite (3 / 4), Finite (3 / 4)),
      (0, Finite 60, Finite (1 / 4), Finite (1 / 4), Finite (3 / 4), Finite (3 / 4)),
      (0, Finite 30, Finite (1 / 4), Finite (1 / 4), Finite (3 / 4), Finite (3 / 4))]
   = [(1, Finite 90, Finite (1 / 4), Finite (1 / 4), Finite (3 / 4), Finite (3 / 4)),
      (0, Finite 60, Finite (1 / 4), Finite (1 / 4), Finite (3 / 4), Finite (3 / 4))]"
  using threshold_filter_monotone [of "Finite 50" "Finite 80"
      "[(1, Finite 90, Finite (1 / 4), Finite (1 / 4), Finite (3 / 4), Finite (3 / 4)),
        (0, Finite 60, Finite (1 / 4), Finite (1 / 4), Finite (3 / 4), Finite (3 / 4)),
        (0, Finite 30, Finite (1 / 4), Finite (1 / 4), Finite (3 / 4), Finite (3 / 4))]"]
  by (simp add: shown_def det_confidence_def)

text \<open>
  C9. In every run of the notebook the renderer is called with the threshold 0 only. Its
  detections are the rows of a response of the detection service, one per label, and, the
  service reporting confidences of at least 0 (its scale is 0 to 100), each of them passes
  the display filter: as many boxes are drawn as the service returned labels.
\<close>

theorem renderer_threshold_zero_draws_every_detection:
  assumes "\<forall>arn payload mc ls. detect_custom_labels E arn payload mc = Inr ls
             \<longrightarrow> (\<forall>l\<in>set ls. float_ge (Confidence l) (Finite 0))"
    and "VisualizeDetection p ds cs t \<in> set (fst (notebook E))"
  shows "t = Finite 0 \<and> shown t ds = ds \<and>
         (\<exists>payload ls.
            detect_custom_labels E (model_arn E) payload (override_confidence E) = Inr ls \<and>
            result cs ls = Inr ds \<and> length ds = length ls \<and>
            length (visualize_detection p ds cs t) = length ls)"
proof -
  from notebook_visualize [OF assms(2)] obtain C img where
    "VisualizeDetection p ds cs t \<in> set (fst (process_image E C img))" by blast
  from process_image_visualize [OF this] obtain payload ls where
    t: "t = Finite 0" and
    ls: "detect_custom_labels E (model_arn E) payload (override_confidence E) = Inr ls" and
    ds: "result cs ls = Inr ds"
    by blast
  note rc = result_confidences [OF ds]
  have "\<forall>l\<in>set ls. float_ge (Confidence l) (Finite 0)" using assms(1) ls by blast
  then have "\<forall>c\<in>set (map det_confidence ds). float_ge c (Finite 0)"
    unfolding rc(2) by simp
  then have all: "shown t ds = ds" unfolding t by (intro shown_all) simp
  then have "length (visualize_detection p ds cs t) = length ls"
    by (simp add: visualize_detection_def rc(1))
  with t all ls ds rc(1) show ?thesis by blast
qed

text \<open>
  A run on one image for which the service returns two labels, one of them with
  confidence 0.
\<close>

theorem renderer_threshold_zero_draws_every_detection_witness:
  "VisualizeDetection ''data/test/a.jpg''
     [(1, Finite 90, Finite (1 / 4), Finite (1 / 4), Finite (3 / 4), Finite (3 / 4)),
      (0, Finite 0, Finite (1 / 4), Finite (1 / 4), Finite (3 / 4), Finite (3 / 4))]
     [''boots'', ''cats''] (Finite 0)
   \<in> set (fst (notebook
     \<lparr>stored_BUCKET_NAME = Some ''my-bucket'',
      stored_CLASS_NAMES = Some [''boots'', ''cats''],
      stored_test_image_folder = Some ''data/test'',
      get_execution_role = Inr ''arn:aws:iam::123456789012:role/notebook'',
      region_name = Some ''us-east-1'',
      head_bucket = (\<lambda>b. Inr [''x-amz-bucket-region'' \<mapsto> ''us-east-1'']),
      model_arn = ''arn:aws:rekognition:us-east-1:123456789012:project/bootsncats/version/1'',
      start_project_version = (\<lambda>arn units. Inr ()),
      override_confidence = Some (Finite 80),
      listdir = (\<lambda>d. Inr [''a.jpg'']),
      read_file = (\<lambda>p. Inr ''JFIF''),
      detect_custom_labels = (\<lambda>arn payload mc. Inr
        [\<lparr>Name = ''cats'', Confidence = Finite 90,
          Geometry = \<lparr>BoundingBox = \<lparr>Left = Finite (1 / 4), Top = Finite (1 / 4),
                                      Width = Finite (1 / 2), Height = Finite (1 / 2)\<rparr>\<rparr>\<rparr>,
         \<lparr>Name = ''boots'', Confidence = Finite 0,
          Geometry = \<lparr>BoundingBox = \<lparr>Left = Finite (1 / 4), Top = Finite (1 / 4),
                                      Width = Finite (1 / 2), Height = Finite (1 / 2)\<rparr>\<rparr>\<rparr>]),
      stop_project_version = (\<lambda>arn. Inr ())\<rparr>)) \<and>
   shown (Finite 0)
     [(1, Finite 90, Finite (1 / 4), Finite (1 / 4), Finite (3 / 4), Finite (3 / 4)),
      (0, Finite 0, Finite (1 / 4), Finite (1 / 4), Finite (3 / 4), Finite (3 / 4))]
   = [(1, Finite 90, Finite (1 / 4), Finite (1 / 4), Finite (3 / 4), Finite (3 / 4)),
      (0, Finite 0, Finite (1 / 4), Finite (1 / 4), Finite (3 / 4), Finite (3 / 4))]"
proof -
  let ?E = "\<lparr>stored_BUCKET_NAME = Some ''my-bucket'',
      stored_CLASS_NAMES = Some [''boots'', ''cats''],
      stored_test_image_folder = Some ''data/test'',
      get_execution_role = Inr ''arn:aws:iam::123456789012:role/notebook'',
      region_name = Some ''us-east-1'',
      head_bucket = (\<lambda>b. Inr [''x-amz-bucket-region'' \<mapsto> ''us-east-1'']),
      model_arn = ''arn:aws:rekognition:us-east-1:123456789012:project/bootsncats/version/1'',
      start_project_version = (\<lambda>arn units. Inr ()),
      override_confidence = Some (Finite 80),
      listdir = (\<lambda>d. Inr [''a.jpg'']),
      read_file = (\<lambda>p. Inr ''JFIF''),
      detect_custom_labels = (\<lambda>arn payload mc. Inr
        [\<lparr>Name = ''cats'', Confidence = Finite 90,
          Geometry = \<lparr>BoundingBox = \<lparr>Left = Finite (1 / 4), Top = Finite (1 / 4),
                                      Width = Finite (1 / 2), Height = Finite (1 / 2)\<rparr>\<rparr>\<rparr>,
         \<lparr>Name = ''boots'', Confidence = Finite 0,
          Geometry = \<lparr>BoundingBox = \<lparr>Left = Finite (1 / 4), Top = Finite (1 / 4),
                                      Width = Finite (1 / 2), Height = Finite (1 / 2)\<rparr>\<rparr>\<rparr>]),
      stop_project_version = (\<lambda>arn. Inr ())\<rparr>"
  let ?ds = "[(1, Finite 90, Finite (1 / 4), Finite (1 / 4), Finite (3 / 4), Finite (3 / 4)),
      (0, Finite 0, Finite (1 / 4), Finite (1 / 4), Finite (3 / 4), Finite (3 / 4))]"
  have contract: "\<forall>arn payload mc ls. detect_custom_labels ?E arn payload mc = Inr ls
             \<longrightarrow> (\<forall>l\<in>set ls. float_ge (Confidence l) (Finite 0))"
    by auto
  have ev: "VisualizeDetection ''data/test/a.jpg'' ?ds [''boots'', ''cats''] (Finite 0)
      \<in> set (fst (notebook ?E))"
    using add_quarter_half
    by (simp add: notebook_def cell_configuration_def restore_and_assert_def cell_connect_def
        subscript_def cell_deploy_def cell_inference_def process_image_def cell_cleanup_def
        validate_MinConfidence_def result_def result_lambda_def run_defs)
  from renderer_threshold_zero_draws_every_detection [OF contract ev] ev
  show ?thesis by simp
qed

section \<open>The confidence floor of the inference call\<close>

text \<open>
  C6, against the code. The cell's comment says that \<^verbatim>\<open>override_confidence\<close> may be
  set to \<^verbatim>\<open>None\<close> to use the service's own threshold. With \<^verbatim>\<open>None\<close> the call
  to the detection service does not succeed: for an image that can be read it ends with
  \<^verbatim>\<open>ParamValidationError\<close> and no request is made. With a number that is not below 0
  the floor is passed through: the image causes exactly one request, the first thing it
  does, and the request carries the model, the bytes of the image and that number.
\<close>

theorem absent_confidence_floor_raises_before_request:
  assumes "read_file E (test_image_folder C @ ''/'' @ test_image) = Inr payload"
  shows "(override_confidence E = None \<longrightarrow>
            process_image E C test_image = ([], Inl ParamValidationError)) \<and>
         (\<forall>v. override_confidence E = Some v \<and> \<not> float_lt v (Finite 0) \<longrightarrow>
            (\<exists>rest r. process_image E C test_image
                        = (DetectCustomLabels (model_arn E) payload (Some v) # rest, r)
                      \<and> \<not> list_ex is_remote_call rest))"
proof (intro conjI impI allI)
  assume "override_confidence E = None"
  then show "process_image E C test_image = ([], Inl ParamValidationError)"
    using assms by (simp add: process_image_def validate_MinConfidence_def run_defs)
next
  fix v assume v: "override_confidence E = Some v \<and> \<not> float_lt v (Finite 0)"
  show "\<exists>rest r. process_image E C test_image
                    = (DetectCustomLabels (model_arn E) payload (Some v) # rest, r)
                  \<and> \<not> list_ex is_remote_call rest"
  proof (cases "detect_custom_labels E (model_arn E) payload (Some v)")
    case (Inl e)
    then show ?thesis
      using assms v by (simp add: process_image_def validate_MinConfidence_def run_defs)
  next
    case (Inr CustomLabels)
    then show ?thesis
      using assms v
      by (cases "result (CLASS_NAMES C) CustomLabels")
         (simp_all add: process_image_def validate_MinConfidence_def run_defs)
  qed
qed

theorem absent_confidence_floor_raises_before_request_witness:
  "process_image
     \<lparr>stored_BUCKET_NAME = Some ''my-bucket'',
      stored_CLASS_NAMES = Some [''boots'', ''cats''],
      stored_test_image_folder = Some ''data/test'',
      get_execution_role = Inr ''arn:aws:iam::123456789012:role/notebook'',
      region_name = Some ''us-east-1'',
      head_bucket = (\<lambda>b. Inr [''x-amz-bucket-region'' \<mapsto> ''us-east-1'']),
      model_arn = ''arn:aws:rekognition:us-east-1:123456789012:project/bootsncats/version/1'',
      start_project_version = (\<lambda>arn units. Inr ()),
      override_confidence = None,
      listdir = (\<lambda>d. Inr [''a.jpg'']),
      read_file = (\<lambda>p. Inr ''JFIF''),
      detect_custom_labels = (\<lambda>arn payload mc. Inr []),
      stop_project_version = (\<lambda>arn. Inr ())\<rparr>
     \<lparr>BUCKET_NAME = ''my-bucket'', CLASS_NAMES = [''boots'', ''cats''],
       test_image_folder = ''data/test''\<rparr>
     ''a.jpg''
   = ([], Inl ParamValidationError) \<and>
   process_image
     \<lparr>stored_BUCKET_NAME = Some ''my-bucket'',
      stored_CLASS_NAMES = Some [''boots'', ''cats''],
      stored_test_image_folder = Some ''data/test'',
      get_execution_role = Inr ''arn:aws:iam::123456789012:role/notebook'',
      region_name = Some ''us-east-1'',
      head_bucket = (\<lambda>b. Inr [''x-amz-bucket-region'' \<mapsto> ''us-east-1'']),
      model_arn = ''arn:aws:rekognition:us-east-1:123456789012:project/bootsncats/version/1'',
      start_project_version = (\<lambda>arn units. Inr ()),
      override_confidence = Some (Finite 80),
      listdir = (\<lambda>d. Inr [''a.jpg'']),
      read_file = (\<lambda>p. Inr ''JFIF''),
      detect_custom_labels = (\<lambda>arn payload mc. Inr []),
      stop_project_version = (\<lambda>arn. Inr ())\<rparr>
     \<lparr>BUCKET_NAME = ''my-bucket'', CLASS_NAMES = [''boots'', ''cats''],
       test_image_folder = ''data/test''\<rparr>
     ''a.jpg''
   = ([DetectCustomLabels ''arn:aws:rekognition:us-east-1:123456789012:project/bootsncats/version/1'' ''JFIF'' (Some (Finite 80)),
       DisplayHTML ''<h4>a.jpg</h4>'',
       VisualizeDetection ''data/test/a.jpg'' [] [''boots'', ''cats''] (Finite 0)],
      Inr ())"
  using absent_confidence_floor_raises_before_request [of
     "\<lparr>stored_BUCKET_NAME = Some ''my-bucket'',
      stored_CLASS_NAMES = Some [''boots'', ''cats''],
      stored_test_image_folder = Some ''data/test'',
      get_execution_role = Inr ''arn:aws:iam::123456789012:role/notebook'',
      region_name = Some ''us-east-1'',
      head_bucket = (\<lambda>b. Inr [''x-amz-bucket-region'' \<mapsto> ''us-east-1'']),
      model_arn = ''arn:aws:rekognition:us-east-1:123456789012:project/bootsncats/version/1'',
      start_project_version = (\<lambda>arn units. Inr ()),
      override_confidence = None,
      listdir = (\<lambda>d. Inr [''a.jpg'']),
      read_file = (\<lambda>p. Inr ''JFIF''),
      detect_custom_labels = (\<lambda>arn payload mc. Inr []),
      stop_project_version = (\<lambda>arn. Inr ())\<rparr>"
     "\<lparr>BUCKET_NAME = ''my-bucket'', CLASS_NAMES = [''boots'', ''cats''],
       test_image_folder = ''data/test''\<rparr>"
     "''a.jpg''" "''JFIF''"]
    absent_confidence_floor_raises_before_request [of
     "\<lparr>stored_BUCKET_NAME = Some ''my-bucket'',
      stored_CLASS_NAMES = Some [''boots'', ''cats''],
      stored_test_image_folder = Some ''data/test'',
      get_execution_role = Inr ''arn:aws:iam::123456789012:role/notebook'',
      region_name = Some ''us-east-1'',
      head_bucket = (\<lambda>b. Inr [''x-amz-bucket-region'' \<mapsto> ''us-east-1'']),
      model_arn = ''arn:aws:rekognition:us-east-1:123456789012:project/bootsncats/version/1'',
      start_project_version = (\<lambda>arn units. Inr ()),
      override_confidence = Some (Finite 80),
      listdir = (\<lambda>d. Inr [''a.jpg'']),
      read_file = (\<lambda>p. Inr ''JFIF''),
      detect_custom_labels = (\<lambda>arn payload mc. Inr []),
      stop_project_version = (\<lambda>arn. Inr ())\<rparr>"
     "\<lparr>BUCKET_NAME = ''my-bucket'', CLASS_NAMES = [''boots'', ''cats''],
       test_image_folder = ''data/test''\<rparr>"
     "''a.jpg''" "''JFIF''"]
  by (simp add: process_image_def validate_MinConfidence_def result_def run_defs)

section \<open>Failures before the remote calls\<close>

text \<open>
  C7. When the bucket name, the class vocabulary or the test image folder is missing from
  the store (or is stored empty), the run ends in the configuration cell with
  \<^verbatim>\<open>NameError\<close> or \<^verbatim>\<open>AssertionError\<close>, and by then it has made no request to
  any AWS service: the only thing done is the shell command of the first cell.
\<close>

theorem missing_configuration_fails_before_remote_calls:
  assumes "stored_BUCKET_NAME E = None \<or> stored_BUCKET_NAME E = Some []
         \<or> stored_CLASS_NAMES E = None \<or> stored_CLASS_NAMES E = Some []
         \<or> stored_test_image_folder E = None \<or> stored_test_image_folder E = Some []"
  shows "\<exists>e. notebook E = ([Shell ''pip install --upgrade awscli boto3''], Inl e)
             \<and> (e = NameError \<or> e = AssertionError)
             \<and> \<not> list_ex is_remote_call (fst (notebook E))"
proof -
  from cell_configuration_cases [of E] assms
  obtain e where e: "cell_configuration E = ([], Inl e)" "e = NameError \<or> e = AssertionError"
    by auto
  then have "notebook E = ([Shell ''pip install --upgrade awscli boto3''], Inl e)"
    by (simp add: notebook_def bind_run_def emit_def)
  with e(2) show ?thesis by auto
qed

theorem missing_configuration_fails_before_remote_calls_witness:
  "notebook
     \<lparr>stored_BUCKET_NAME = Some ''my-bucket'',
      stored_CLASS_NAMES = None,
      stored_test_image_folder = Some ''data/test'',
      get_execution_role = Inr ''arn:aws:iam::123456789012:role/notebook'',
      region_name = Some ''us-east-1'',
      head_bucket = (\<lambda>b. Inr [''x-amz-bucket-region'' \<mapsto> ''us-east-1'']),
      model_arn = ''arn:aws:rekognition:us-east-1:123456789012:project/bootsncats/version/1'',
      start_project_version = (\<lambda>arn units. Inr ()),
      override_confidence = Some (Finite 80),
      listdir = (\<lambda>d. Inr [''a.jpg'']),
      read_file = (\<lambda>p. Inr ''JFIF''),
      detect_custom_labels = (\<lambda>arn payload mc. Inr
        [\<lparr>Name = ''cats'', Confidence = Finite 90,
          Geometry = \<lparr>BoundingBox = \<lparr>Left = Finite (1 / 4), Top = Finite (1 / 4),
                                      Width = Finite (1 / 2), Height = Finite (1 / 2)\<rparr>\<rparr>\<rparr>,
         \<lparr>Name = ''boots'', Confidence = Finite 0,
          Geometry = \<lparr>BoundingBox = \<lparr>Left = Finite (1 / 4), Top = Finite (1 / 4),
                                      Width = Finite (1 / 2), Height = Finite (1 / 2)\<rparr>\<rparr>\<rparr>]),
      stop_project_version = (\<lambda>arn. Inr ())\<rparr>
   = ([Shell ''pip install --upgrade awscli boto3''], Inl NameError)"
  using missing_configuration_fails_before_remote_calls [of
     "\<lparr>stored_BUCKET_NAME = Some ''my-bucket'',
      stored_CLASS_NAMES = None,
      stored_test_image_folder = Some ''data/test'',
      get_execution_role = Inr ''arn:aws:iam::123456789012:role/notebook'',
      region_name = Some ''us-east-1'',
      head_bucket = (\<lambda>b. Inr [''x-amz-bucket-region'' \<mapsto> ''us-east-1'']),
      model_arn = ''arn:aws:rekognition:us-east-1:123456789012:project/bootsncats/version/1'',
      start_project_version = (\<lambda>arn units. Inr ()),
      override_confidence = Some (Finite 80),
      listdir = (\<lambda>d. Inr [''a.jpg'']),
      read_file = (\<lambda>p. Inr ''JFIF''),
      detect_custom_labels = (\<lambda>arn payload mc. Inr
        [\<lparr>Name = ''cats'', Confidence = Finite 90,
          Geometry = \<lparr>BoundingBox = \<lparr>Left = Finite (1 / 4), Top = Finite (1 / 4),
                                      Width = Finite (1 / 2), Height = Finite (1 / 2)\<rparr>\<rparr>\<rparr>,
         \<lparr>Name = ''boots'', Confidence = Finite 0,
          Geometry = \<lparr>BoundingBox = \<lparr>Left = Finite (1 / 4), Top = Finite (1 / 4),
                                      Width = Finite (1 / 2), Height = Finite (1 / 2)\<rparr>\<rparr>\<rparr>]),
      stop_project_version = (\<lambda>arn. Inr ())\<rparr>"]
  by (simp add: notebook_def cell_configuration_def restore_and_assert_def run_defs)

text \<open>
  C8. When the region reported for the bucket differs from the region of the session,
  the assertion that compares the two fails, and the run ends there: its requests are the
  role lookup and the bucket lookup, and neither a model deployment nor an inference
  request is made.
\<close>

theorem region_mismatch_halts_before_deployment:
  assumes "cell_configuration E = ([], Inr C)"
    and "get_execution_role E = Inr role"
    and "head_bucket E (BUCKET_NAME C) = Inr headers"
    and "headers ''x-amz-bucket-region'' = Some bucket_region"
    and "Some bucket_region \<noteq> region_name E"
  shows "notebook E = ([Shell ''pip install --upgrade awscli boto3'', GetExecutionRole,
                        HeadBucket (BUCKET_NAME C)], Inl AssertionError)
         \<and> \<not> list_ex is_deploy_or_inference (fst (notebook E))"
proof -
  have "notebook E = ([Shell ''pip install --upgrade awscli boto3'', GetExecutionRole,
                        HeadBucket (BUCKET_NAME C)], Inl AssertionError)"
    using assms(1) cell_connect_mismatch [OF assms(2-5)]
    by (simp add: notebook_def bind_run_def emit_def)
  then show ?thesis by simp
qed

theorem region_mismatch_halts_before_deployment_witness:
  "notebook
     \<lparr>stored_BUCKET_NAME = Some ''my-bucket'',
      stored_CLASS_NAMES = Some [''boots'', ''cats''],
      stored_test_image_folder = Some ''data/test'',
      get_execution_role = Inr ''arn:aws:iam::123456789012:role/notebook'',
      region_name = Some ''us-east-1'',
      head_bucket = (\<lambda>b. Inr [''x-amz-bucket-region'' \<mapsto> ''eu-west-1'']),
      model_arn = ''arn:aws:rekognition:us-east-1:123456789012:project/bootsncats/version/1'',
      start_project_version = (\<lambda>arn units. Inr ()),
      override_confidence = Some (Finite 80),
      listdir = (\<lambda>d. Inr [''a.jpg'']),
      read_file = (\<lambda>p. Inr ''JFIF''),
      detect_custom_labels = (\<lambda>arn payload mc. Inr
        [\<lparr>Name = ''cats'', Confidence = Finite 90,
          Geometry = \<lparr>BoundingBox = \<lparr>Left = Finite (1 / 4), Top = Finite (1 / 4),
                                      Width = Finite (1 / 2), Height = Finite (1 / 2)\<rparr>\<rparr>\<rparr>,
         \<lparr>Name = ''boots'', Confidence = Finite 0,
          Geometry = \<lparr>BoundingBox = \<lparr>Left = Finite (1 / 4), Top = Finite (1 / 4),
                                      Width = Finite (1 / 2), Height = Finite (1 / 2)\<rparr>\<rparr>\<rparr>]),
      stop_project_version = (\<lambda>arn. Inr ())\<rparr>
   = ([Shell ''pip install --upgrade awscli boto3'', GetExecutionRole, HeadBucket ''my-bucket''],
      Inl AssertionError)"
  using region_mismatch_halts_before_deployment [of
     "\<lparr>stored_BUCKET_NAME = Some ''my-bucket'',
      stored_CLASS_NAMES = Some [''boots'', ''cats''],
      stored_test_image_folder = Some ''data/test'',
      get_execution_role = Inr ''arn:aws:iam::123456789012:role/notebook'',
      region_name = Some ''us-east-1'',
      head_bucket = (\<lambda>b. Inr [''x-amz-bucket-region'' \<mapsto> ''eu-west-1'']),
      model_arn = ''arn:aws:rekognition:us-east-1:123456789012:project/bootsncats/version/1'',
      start_project_version = (\<lambda>arn units. Inr ()),
      override_confidence = Some (Finite 80),
      listdir = (\<lambda>d. Inr [''a.jpg'']),
      read_file = (\<lambda>p. Inr ''JFIF''),
      detect_custom_labels = (\<lambda>arn payload mc. Inr
        [\<lparr>Name = ''cats'', Confidence = Finite 90,
          Geometry = \<lparr>BoundingBox = \<lparr>Left = Finite (1 / 4), Top = Finite (1 / 4),
                                      Width = Finite (1 / 2), Height = Finite (1 / 2)\<rparr>\<rparr>\<rparr>,
         \<lparr>Name = ''boots'', Confidence = Finite 0,
          Geometry = \<lparr>BoundingBox = \<lparr>Left = Finite (1 / 4), Top = Finite (1 / 4),
                                      Width = Finite (1 / 2), Height = Finite (1 / 2)\<rparr>\<rparr>\<rparr>]),
      stop_project_version = (\<lambda>arn. Inr ())\<rparr>"
     "\<lparr>BUCKET_NAME = ''my-bucket'', CLASS_NAMES = [''boots'', ''cats''],
       test_image_folder = ''data/test''\<rparr>"
     "''arn:aws:iam::123456789012:role/notebook''"
     "[''x-amz-bucket-region'' \<mapsto> ''eu-west-1'']"
     "''eu-west-1''"]
  by (simp add: cell_configuration_def restore_and_assert_def run_defs)

end
